theory Spec2Isabelle
  imports Complex_Main
begin

section \<open>Time and calendar dates\<close>

text \<open>
  A JavaScript \<open>Date\<close> is a number of milliseconds since the epoch; a value of an SQL
  \<open>DATE\<close> column and a \<open>'YYYY-MM-DD'\<close> string are calendar dates, modelled as the number
  of days since the epoch. A time zone is its offset from UTC in milliseconds, positive to
  the east, taken as constant over the dates at hand.
  \<^item> \<open>new Date('YYYY-MM-DD')\<close> is the UTC midnight of the date (\<open>date_to_ms\<close>), and
    \<^verbatim>\<open>toISOString().split('T')[0]\<close> is the UTC date of an instant (\<open>utc_date\<close>).
  \<^item> The database driver returns a \<open>DATE\<close> column as the \<open>Date\<close> of the midnight of
    that date in the time zone of the process (\<open>pg_date\<close>); nothing in the source sets
    that time zone.
  \<^item> \<open>CURRENT_DATE\<close> is the date of now in the time zone of the database session
    (\<open>local_date\<close>).

  The quotient of the two millisecond counts is an exact rational in the model; the
  source computes it in double precision, which agrees for every date within a few hundred
  thousand years of now.
\<close>

type_synonym timestamp = int
type_synonym date = int

definition ms_per_day :: int where
  "ms_per_day = 1000 * 60 * 60 * 24"

definition date_to_ms :: "date \<Rightarrow> timestamp" where
  "date_to_ms d = d * ms_per_day"

definition utc_date :: "timestamp \<Rightarrow> date" where
  "utc_date t = t div ms_per_day"

definition pg_date :: "int \<Rightarrow> date \<Rightarrow> timestamp" where
  "pg_date tz d = d * ms_per_day - tz"

definition local_date :: "int \<Rightarrow> timestamp \<Rightarrow> date" where
  "local_date tz t = (t + tz) div ms_per_day"

text \<open>
  \<^verbatim>\<open>Math.ceil((new Date(x) - new Date()) / (1000 * 60 * 60 * 24))\<close>, the expression of
  \<open>monitoring.js\<close> lines 59, 134, 244 and 282.
\<close>

definition daysUntilExpiry :: "timestamp \<Rightarrow> timestamp \<Rightarrow> int" where
  "daysUntilExpiry target now = \<lceil>real_of_int (target - now) / real_of_int ms_per_day\<rceil>"

section \<open>Certificate status\<close>

datatype cert_status = valid | expiring_soon | expired

text \<open>The classification in the response callback of \<open>checkSSLCertificate\<close>.\<close>

definition https_status :: "timestamp \<Rightarrow> timestamp \<Rightarrow> cert_status" where
  "https_status validUntil now =
     (if validUntil < now then expired
      else if validUntil < now + 30 * 24 * 60 * 60 * 1000 then expiring_soon
      else valid)"

text \<open>The classification in the connect callback of \<open>checkWithTLS\<close>.\<close>

definition tls_status :: "timestamp \<Rightarrow> timestamp \<Rightarrow> cert_status" where
  "tls_status validUntil now =
     (if validUntil < now then expired
      else if validUntil < now + 30 * 24 * 60 * 60 * 1000 then expiring_soon
      else valid)"

section \<open>JavaScript values, errors and promises\<close>

text \<open>
  A nullable string (a column that may be NULL, a property that may be undefined) is a
  \<open>string option\<close>; it is truthy when it is present and not empty.
\<close>

definition truthy :: "string option \<Rightarrow> bool" where
  "truthy v = (case v of None \<Rightarrow> False | Some s \<Rightarrow> s \<noteq> [])"

definition startsWith :: "string \<Rightarrow> string \<Rightarrow> bool" where
  "startsWith s p = (take (length p) s = p)"

text \<open>
  \<open>Error m\<close> is \<open>new Error(m)\<close> made by this code; \<open>TransportError c\<close> is the error
  object a socket or request emits (with its code, such as ECONNREFUSED); \<open>TypeError m\<close>
  is thrown by the runtime; \<open>QueryError\<close> is what \<open>pool.query\<close> throws.
\<close>

datatype error = Error string | TransportError string | TypeError string | QueryError

datatype 'a promise = Resolved 'a | Rejected error

section \<open>URLs\<close>

text \<open>
  \<open>new URL(s)\<close> and \<open>http.get(s)\<close> parse the string as an absolute URL and throw a
  TypeError (ERR_INVALID_URL) when it has no scheme: after leading spaces and control
  characters are dropped and tabs and newlines removed, an ASCII letter, then letters,
  digits, \<open>+\<close>, \<open>-\<close> or \<open>.\<close>, then a colon. What else the parser rejects is left to the
  environment.
\<close>

definition ascii_alpha :: "char \<Rightarrow> bool" where
  "ascii_alpha c = (let n = (of_char c :: nat) in (65 \<le> n \<and> n \<le> 90) \<or> (97 \<le> n \<and> n \<le> 122))"

definition ascii_digit :: "char \<Rightarrow> bool" where
  "ascii_digit c = (let n = (of_char c :: nat) in 48 \<le> n \<and> n \<le> 57)"

definition scheme_char :: "char \<Rightarrow> bool" where
  "scheme_char c = (ascii_alpha c \<or> ascii_digit c \<or> c = CHR ''+'' \<or> c = CHR ''-'' \<or> c = CHR ''.'')"

fun scheme_rest :: "string \<Rightarrow> bool" where
  "scheme_rest [] = False"
| "scheme_rest (c # cs) = (c = CHR '':'' \<or> (scheme_char c \<and> scheme_rest cs))"

definition url_input :: "string \<Rightarrow> string" where
  "url_input s =
     filter (\<lambda>c. (of_char c :: nat) \<noteq> 9 \<and> (of_char c :: nat) \<noteq> 10 \<and> (of_char c :: nat) \<noteq> 13)
       (dropWhile (\<lambda>c. (of_char c :: nat) \<le> 32) s)"

definition has_scheme :: "string \<Rightarrow> bool" where
  "has_scheme s = (case url_input s of [] \<Rightarrow> False | c # cs \<Rightarrow> ascii_alpha c \<and> scheme_rest cs)"

section \<open>The network\<close>

datatype protocol = https | http

text \<open>The first event of one GET request: the call throws, a response, an error, a timeout.\<close>

datatype get_event = invalid_url | response int | error_event string | timeout_event

text \<open>
  The peer certificate as \<open>getPeerCertificate()\<close> returns it: the dates are the parsed
  \<open>valid_from\<close> and \<open>valid_to\<close> strings (None when the property is missing or empty).
\<close>

record peer_certificate =
  valid_from :: "timestamp option"
  valid_to :: "timestamp option"
  issuer_CN :: "string option"
  issuer_O :: "string option"

datatype https_event =
  https_response "peer_certificate option" | https_error string | https_timeout

datatype tls_event =
  tls_connected "peer_certificate option" | tls_error string | tls_timeout

record network =
  url_hostname :: "string \<Rightarrow> string option"
  https_request :: "string \<Rightarrow> https_event"
  tls_connect :: "string \<Rightarrow> tls_event"
  get_request :: "protocol \<Rightarrow> string \<Rightarrow> get_event"

text \<open>\<open>new URL(s).hostname\<close>; None when the constructor throws.\<close>

definition new_URL :: "network \<Rightarrow> string \<Rightarrow> string option" where
  "new_URL net s = (if has_scheme s then url_hostname net s else None)"

text \<open>\<open>protocol.get(url, { timeout: 10000 }, callback)\<close>.\<close>

definition protocol_get :: "network \<Rightarrow> protocol \<Rightarrow> string \<Rightarrow> get_event" where
  "protocol_get net p url = (if has_scheme url then get_request net p url else invalid_url)"

section \<open>The reachability prober\<close>

text \<open>
  \<open>checkDomainUptime\<close> of \<open>monitoring.js\<close>. An exception thrown inside the executor of
  \<open>new Promise\<close> rejects the promise.
\<close>

definition checkDomainUptime :: "network \<Rightarrow> string \<Rightarrow> bool promise" where
  "checkDomainUptime net domainName =
     (let url = (if startsWith domainName ''http'' then domainName else ''https://'' @ domainName);
          protocol = (if startsWith url ''https'' then https else http)
      in case protocol_get net protocol url of
           invalid_url \<Rightarrow> Rejected (TypeError ''Invalid URL'')
         | response statusCode \<Rightarrow> Resolved (statusCode \<ge> 200 \<and> statusCode < 400)
         | error_event e \<Rightarrow> Resolved False
         | timeout_event \<Rightarrow> Resolved False)"

section \<open>The certificate prober\<close>

record ssl_info =
  issuer :: string
  validFrom :: date
  validUntil :: date
  status :: cert_status

text \<open>\<^verbatim>\<open>cert.issuer?.CN || cert.issuer?.O || 'Unknown'\<close>\<close>

definition issuer_of :: "peer_certificate \<Rightarrow> string" where
  "issuer_of cert =
     (if truthy (issuer_CN cert) then the (issuer_CN cert)
      else if truthy (issuer_O cert) then the (issuer_O cert)
      else ''Unknown'')"

text \<open>
  The body of both callbacks, given the status classification of the path: the guard
  \<^verbatim>\<open>cert && cert.valid_from && cert.valid_to\<close>, then the resolved object (its dates
  are \<^verbatim>\<open>toISOString().split('T')[0]\<close>, the UTC calendar date), else the rejection.
\<close>

definition certificate_result ::
  "(timestamp \<Rightarrow> timestamp \<Rightarrow> cert_status) \<Rightarrow> timestamp \<Rightarrow> peer_certificate option \<Rightarrow> ssl_info promise"
where
  "certificate_result classify now cert =
     (case cert of
        None \<Rightarrow> Rejected (Error ''No valid certificate found'')
      | Some c \<Rightarrow>
          (case (valid_from c, valid_to c) of
             (Some vf, Some vu) \<Rightarrow>
               Resolved \<lparr>issuer = issuer_of c, validFrom = utc_date vf, validUntil = utc_date vu,
                         status = classify vu now\<rparr>
           | _ \<Rightarrow> Rejected (Error ''No valid certificate found'')))"

definition checkWithTLS :: "network \<Rightarrow> timestamp \<Rightarrow> string \<Rightarrow> ssl_info promise" where
  "checkWithTLS net now hostname =
     (case tls_connect net hostname of
        tls_connected cert \<Rightarrow> certificate_result tls_status now cert
      | tls_error e \<Rightarrow> Rejected (TransportError e)
      | tls_timeout \<Rightarrow> Rejected (Error ''Connection timeout''))"

text \<open>
  \<open>checkSSLCertificate\<close>: the try block catches only what \<open>new URL\<close> throws (the result
  is then null); the promise it returns is not awaited inside it, so a rejection reaches
  the caller.
\<close>

definition checkSSLCertificate :: "network \<Rightarrow> timestamp \<Rightarrow> string \<Rightarrow> ssl_info option promise" where
  "checkSSLCertificate net now domain =
     (let domainUrl = (if startsWith domain ''http'' then domain else ''https://'' @ domain)
      in case new_URL net domainUrl of
           None \<Rightarrow> Resolved None
         | Some hostname \<Rightarrow>
             (case https_request net hostname of
                https_response cert \<Rightarrow>
                  (case certificate_result https_status now cert of
                     Resolved info \<Rightarrow> Resolved (Some info)
                   | Rejected e \<Rightarrow> Rejected e)
              | https_error e \<Rightarrow>
                  (case checkWithTLS net now hostname of
                     Resolved info \<Rightarrow> Resolved (Some info)
                   | Rejected e' \<Rightarrow> Rejected e')
              | https_timeout \<Rightarrow> Rejected (Error ''Request timeout'')))"

section \<open>Notification transport\<close>

text \<open>
  \<open>sendEmailAlert\<close> and \<open>sendSMSAlert\<close> of the notification service. The configuration
  checks are the source's; \<open>sendMail\<close> and \<open>messages_create\<close> are the external transports,
  returning the message of the error they throw, or None when the message is delivered.
  The subject and text of a message are not modelled.
\<close>

record transport =
  smtp_configured :: bool
  sendMail :: "string \<Rightarrow> string option"
  twilioClient :: bool
  twilio_phone_number :: bool
  messages_create :: "string \<Rightarrow> string option"

definition sendEmailAlert :: "transport \<Rightarrow> string \<Rightarrow> string + unit" where
  "sendEmailAlert tr addr =
     (if \<not> smtp_configured tr then Inl ''SMTP configuration not set''
      else case sendMail tr addr of Some m \<Rightarrow> Inl m | None \<Rightarrow> Inr ())"

definition sendSMSAlert :: "transport \<Rightarrow> string \<Rightarrow> string + unit" where
  "sendSMSAlert tr addr =
     (if \<not> twilioClient tr then Inl ''Twilio configuration not set''
      else if \<not> twilio_phone_number tr then Inl ''Twilio phone number not configured''
      else case messages_create tr addr of Some m \<Rightarrow> Inl m | None \<Rightarrow> Inr ())"

section \<open>Storage\<close>

text \<open>The tables of the schema, with the columns the engine reads or writes.\<close>

record user =
  u_id :: nat
  u_email :: string
  u_phone :: "string option"

record domain =
  d_id :: nat
  d_user_id :: nat
  d_domain_name :: string
  d_expiry_date :: date
  d_status :: string

record ssl_certificate =
  s_id :: nat
  s_domain_id :: nat
  s_issuer :: "string option"
  s_valid_from :: "date option"
  s_valid_until :: "date option"
  s_status :: string

record alert =
  a_domain_id :: nat
  a_type :: string
  a_email_enabled :: bool
  a_sms_enabled :: bool
  a_days_before_expiry :: int

record notification_log =
  n_user_id :: nat
  n_domain_id :: nat
  n_type :: string
  n_method :: string
  n_status :: string
  n_sent_at :: timestamp

text \<open>
  A row of a join, as the driver returns it: one object with a property per selected
  column, a later column of the same name replacing an earlier one (so in
  \<open>SELECT d.*, s.*\<close> the property \<open>id\<close> is the certificate's). A column the query does
  not select is None; so is a NULL.
\<close>

record row =
  r_id :: nat
  r_user_id :: nat
  r_domain_id :: "nat option"
  r_domain_name :: string
  r_expiry_date :: date
  r_valid_until :: "date option"
  r_email :: "string option"
  r_phone :: "string option"
  r_days_before_expiry :: "int option"
  r_email_enabled :: "bool option"
  r_sms_enabled :: "bool option"

definition domain_row :: "domain \<Rightarrow> user \<Rightarrow> row" where
  "domain_row d u =
     \<lparr>r_id = d_id d, r_user_id = d_user_id d, r_domain_id = None,
      r_domain_name = d_domain_name d, r_expiry_date = d_expiry_date d, r_valid_until = None,
      r_email = Some (u_email u), r_phone = u_phone u,
      r_days_before_expiry = None, r_email_enabled = None, r_sms_enabled = None\<rparr>"

definition ssl_row :: "domain \<Rightarrow> ssl_certificate \<Rightarrow> user \<Rightarrow> row" where
  "ssl_row d s u =
     (domain_row d u)\<lparr>r_id := s_id s, r_domain_id := Some (s_domain_id s),
                       r_valid_until := s_valid_until s\<rparr>"

definition with_alert :: "alert \<Rightarrow> row \<Rightarrow> row" where
  "with_alert a r =
     r\<lparr>r_days_before_expiry := Some (a_days_before_expiry a),
       r_email_enabled := Some (a_email_enabled a), r_sms_enabled := Some (a_sms_enabled a)\<rparr>"

text \<open>
  \<open>new Date(v)\<close> of a nullable DATE column as the driver returned it: the same instant,
  the epoch for null.
\<close>

definition new_Date :: "int \<Rightarrow> date option \<Rightarrow> timestamp" where
  "new_Date tz v = (case v of None \<Rightarrow> 0 | Some d \<Rightarrow> pg_date tz d)"

section \<open>The notification dispatchers\<close>

datatype channel = email | sms

datatype delivery = success | failed string

type_synonym result = "channel \<times> delivery"

type_synonym attempt = "channel \<times> string"

text \<open>\<^verbatim>\<open>try { await send(...); push success } catch (error) { push failed, error.message }\<close>\<close>

definition outcome :: "string + unit \<Rightarrow> delivery" where
  "outcome r = (case r of Inr _ \<Rightarrow> success | Inl m \<Rightarrow> failed m)"

definition str :: "string option \<Rightarrow> string" where
  "str v = (case v of None \<Rightarrow> [] | Some s \<Rightarrow> s)"

text \<open>
  Each dispatcher returns its results, and the list of the sends attempted so far (one entry
  per call of \<open>sendEmailAlert\<close> or \<open>sendSMSAlert\<close>, with the address).
\<close>

definition sendDomainExpiryAlert ::
  "transport \<Rightarrow> row \<Rightarrow> row \<Rightarrow> int \<Rightarrow> attempt list \<Rightarrow> result list \<times> attempt list"
where
  "sendDomainExpiryAlert tr domain user days att =
     (let (results, att1) =
            (if truthy (r_email user)
             then ([(email, outcome (sendEmailAlert tr (str (r_email user))))],
                   att @ [(email, str (r_email user))])
             else ([], att))
      in if truthy (r_phone user)
         then (results @ [(sms, outcome (sendSMSAlert tr (str (r_phone user))))],
               att1 @ [(sms, str (r_phone user))])
         else (results, att1))"

definition sendDomainDowntimeAlert ::
  "transport \<Rightarrow> row \<Rightarrow> row \<Rightarrow> string \<Rightarrow> attempt list \<Rightarrow> result list \<times> attempt list"
where
  "sendDomainDowntimeAlert tr domain user err att =
     (let (results, att1) =
            (if truthy (r_email user)
             then ([(email, outcome (sendEmailAlert tr (str (r_email user))))],
                   att @ [(email, str (r_email user))])
             else ([], att))
      in if truthy (r_phone user)
         then (results @ [(sms, outcome (sendSMSAlert tr (str (r_phone user))))],
               att1 @ [(sms, str (r_phone user))])
         else (results, att1))"

text \<open>
  The third argument of \<open>sendSSLExpiryAlert\<close> is a row object or a number; reading
  \<open>email\<close> or \<open>phone\<close> of a number gives undefined. The fourth may be missing.
\<close>

datatype user_arg = Obj row | Num int

definition email_of :: "user_arg \<Rightarrow> string option" where
  "email_of user = (case user of Obj r \<Rightarrow> r_email r | Num n \<Rightarrow> None)"

definition phone_of :: "user_arg \<Rightarrow> string option" where
  "phone_of user = (case user of Obj r \<Rightarrow> r_phone r | Num n \<Rightarrow> None)"

definition sendSSLExpiryAlert ::
  "transport \<Rightarrow> row \<Rightarrow> row \<Rightarrow> user_arg \<Rightarrow> int option \<Rightarrow> attempt list
     \<Rightarrow> result list \<times> attempt list"
where
  "sendSSLExpiryAlert tr domain sslCert user days att =
     (let (results, att1) =
            (if truthy (email_of user)
             then ([(email, outcome (sendEmailAlert tr (str (email_of user))))],
                   att @ [(email, str (email_of user))])
             else ([], att))
      in if truthy (phone_of user)
         then (results @ [(sms, outcome (sendSMSAlert tr (str (phone_of user))))],
               att1 @ [(sms, str (phone_of user))])
         else (results, att1))"

section \<open>The engine's state and environment\<close>

text \<open>
  The state is the database (its tables and the time zone of its session), the sends
  attempted and the lines written by \<open>console.error\<close>. The environment gives the
  transports, the network, the time zone of the process, and which calls of \<open>pool.query\<close>
  throw for a reason of the environment's: the four queries that load the rows of a sweep,
  and the statements issued for one target, by the id they are issued for. A sweep runs
  at one instant \<open>now\<close>, the value of \<open>new Date()\<close> and of \<open>CURRENT_TIMESTAMP\<close>
  throughout it.
\<close>

record state =
  domains :: "domain list"
  users :: "user list"
  ssl_certificates :: "ssl_certificate list"
  alerts :: "alert list"
  notification_logs :: "notification_log list"
  db_time_zone :: int
  attempts :: "attempt list"
  console :: "string list"

datatype query =
  load_active_domains | load_ssl_records | load_expiring_domains | load_expiring_ssl
  | select_alerts nat | select_recent nat | insert_log nat
  | update_domain nat | update_certificate nat

record env =
  env_tr :: transport
  env_net :: network
  process_tz :: int
  query_fails :: "query \<Rightarrow> bool"

text \<open>
  \<^verbatim>\<open>INSERT INTO notification_logs (user_id, domain_id, type, method, status, sent_at)
  VALUES ($1, $2, $3, 'automated', 'sent', CURRENT_TIMESTAMP)\<close>.
  The schema declares \<^verbatim>\<open>user_id INTEGER REFERENCES users(id)\<close> and
  \<^verbatim>\<open>domain_id INTEGER REFERENCES domains(id)\<close>: the statement throws when either id is
  not in its table.
\<close>

definition insert_notification ::
  "env \<Rightarrow> timestamp \<Rightarrow> nat \<Rightarrow> nat \<Rightarrow> string \<Rightarrow> state \<Rightarrow> error option \<times> state"
where
  "insert_notification env now user_id domain_id ty st =
     (if query_fails env (insert_log domain_id) then (Some QueryError, st)
      else if user_id \<in> set (map u_id (users st)) \<and> domain_id \<in> set (map d_id (domains st))
      then (None, st\<lparr>notification_logs := notification_logs st @
              [\<lparr>n_user_id = user_id, n_domain_id = domain_id, n_type = ty,
                n_method = ''automated'', n_status = ''sent'', n_sent_at = now\<rparr>]\<rparr>)
      else (Some QueryError, st))"

text \<open>A loop whose body is a try block: the error of one row is logged, the loop goes on.\<close>

fun for_each_try ::
  "(row \<Rightarrow> state \<Rightarrow> error option \<times> state) \<Rightarrow> (row \<Rightarrow> string) \<Rightarrow> row list \<Rightarrow> state \<Rightarrow> state"
where
  "for_each_try step label [] st = st"
| "for_each_try step label (r # rs) st =
     (case step r st of
        (None, st1) \<Rightarrow> for_each_try step label rs st1
      | (Some e, st1) \<Rightarrow> for_each_try step label rs (st1\<lparr>console := console st1 @ [label r]\<rparr>))"

text \<open>A loop with no try block in its body: the error of one row leaves the loop.\<close>

fun for_each ::
  "(row \<Rightarrow> state \<Rightarrow> error option \<times> state) \<Rightarrow> row list \<Rightarrow> state \<Rightarrow> error option \<times> state"
where
  "for_each step [] st = (None, st)"
| "for_each step (r # rs) st =
     (case step r st of
        (None, st1) \<Rightarrow> for_each step rs st1
      | (Some e, st1) \<Rightarrow> (Some e, st1))"

definition active_rows :: "state \<Rightarrow> row list" where
  "active_rows st =
     [domain_row d u. d \<leftarrow> domains st, u \<leftarrow> users st,
        d_user_id d = u_id u, d_status d = ''active'']"

section \<open>The daily expiry sweep\<close>

definition daily_step :: "env \<Rightarrow> timestamp \<Rightarrow> row \<Rightarrow> state \<Rightarrow> error option \<times> state" where
  "daily_step env now domain st =
     (let days = daysUntilExpiry (pg_date (process_tz env) (r_expiry_date domain)) now;
          (thrown, st1) =
            (if days \<le> 30 \<and> days > 0 then
               (if query_fails env (select_alerts (r_id domain)) then (Some QueryError, st)
                else
                  let alertResult =
                        filter (\<lambda>a. a_domain_id a = r_id domain \<and> a_type a = ''domain_expiry''
                                     \<and> a_days_before_expiry a \<ge> days) (alerts st)
                  in if length alertResult > 0 then
                       (let (results, att) =
                              sendDomainExpiryAlert (env_tr env) domain domain days (attempts st)
                        in insert_notification env now (r_user_id domain) (r_id domain)
                             ''domain_expiry'' (st\<lparr>attempts := att\<rparr>))
                     else (None, st))
             else (None, st))
      in case thrown of
           Some e \<Rightarrow> (Some e, st1)
         | None \<Rightarrow>
             (if days \<le> 0 then
                (if query_fails env (update_domain (r_id domain)) then (Some QueryError, st1)
                 else (None, st1\<lparr>domains :=
                         map (\<lambda>d. if d_id d = r_id domain then d\<lparr>d_status := ''expired''\<rparr> else d)
                           (domains st1)\<rparr>))
              else (None, st1)))"

definition performDailyMonitoring :: "env \<Rightarrow> timestamp \<Rightarrow> state \<Rightarrow> state" where
  "performDailyMonitoring env now st =
     (if query_fails env load_active_domains
      then st\<lparr>console := console st @ [''Daily monitoring error:'']\<rparr>
      else for_each_try (daily_step env now)
             (\<lambda>r. ''Error monitoring domain '' @ r_domain_name r @ '':'') (active_rows st) st)"

section \<open>The certificate sweep\<close>

definition ssl_rows :: "state \<Rightarrow> row list" where
  "ssl_rows st =
     [ssl_row d s u. d \<leftarrow> domains st, s \<leftarrow> ssl_certificates st, u \<leftarrow> users st,
        d_id d = s_domain_id s, d_user_id d = u_id u, d_status d = ''active'']"

definition status_name :: "cert_status \<Rightarrow> string" where
  "status_name c = (case c of valid \<Rightarrow> ''valid'' | expiring_soon \<Rightarrow> ''expiring_soon''
                    | expired \<Rightarrow> ''expired'')"

text \<open>
  The body of the loop of \<open>performSSLMonitoring\<close>. The call of the dispatcher has three
  arguments: the row, the row, and the number of days. A row whose \<open>domain_id\<close> is missing
  would bind NULL in the statements, which then match no record.
\<close>

definition ssl_step :: "env \<Rightarrow> timestamp \<Rightarrow> row \<Rightarrow> state \<Rightarrow> error option \<times> state" where
  "ssl_step env now record st =
     (case checkSSLCertificate (env_net env) now (r_domain_name record) of
        Rejected e \<Rightarrow> (Some e, st)
      | Resolved None \<Rightarrow> (None, st)
      | Resolved (Some sslInfo) \<Rightarrow>
          (case r_domain_id record of
             None \<Rightarrow> (None, st)
           | Some domain_id \<Rightarrow>
               if query_fails env (update_certificate domain_id) then (Some QueryError, st)
               else
                 let st1 = st\<lparr>ssl_certificates :=
                             map (\<lambda>s. if s_domain_id s = domain_id
                                       then s\<lparr>s_issuer := Some (issuer sslInfo),
                                              s_valid_from := Some (validFrom sslInfo),
                                              s_valid_until := Some (validUntil sslInfo),
                                              s_status := status_name (status sslInfo)\<rparr>
                                       else s)
                               (ssl_certificates st)\<rparr>;
                     days = daysUntilExpiry (date_to_ms (validUntil sslInfo)) now
                 in if days \<le> 30 \<and> days > 0 then
                      (if query_fails env (select_alerts domain_id) then (Some QueryError, st1)
                       else
                         let alertResult =
                               filter (\<lambda>a. a_domain_id a = domain_id \<and> a_type a = ''ssl_expiry''
                                            \<and> a_days_before_expiry a \<ge> days) (alerts st1)
                         in if length alertResult > 0 then
                              (let (results, att) =
                                     sendSSLExpiryAlert (env_tr env) record record (Num days) None
                                       (attempts st1)
                               in insert_notification env now (r_user_id record) domain_id
                                    ''ssl_expiry'' (st1\<lparr>attempts := att\<rparr>))
                            else (None, st1))
                    else (None, st1)))"

definition performSSLMonitoring :: "env \<Rightarrow> timestamp \<Rightarrow> state \<Rightarrow> state" where
  "performSSLMonitoring env now st =
     (if query_fails env load_ssl_records
      then st\<lparr>console := console st @ [''SSL monitoring error:'']\<rparr>
      else for_each_try (ssl_step env now)
             (\<lambda>r. ''Error monitoring SSL for domain '' @ r_domain_name r @ '':'') (ssl_rows st) st)"

section \<open>The reachability sweep\<close>

definition uptime_step :: "env \<Rightarrow> timestamp \<Rightarrow> row \<Rightarrow> state \<Rightarrow> error option \<times> state" where
  "uptime_step env now domain st =
     (case checkDomainUptime (env_net env) (r_domain_name domain) of
        Rejected e \<Rightarrow> (Some e, st)
      | Resolved isUp \<Rightarrow>
          if isUp then (None, st)
          else if query_fails env (select_alerts (r_id domain)) then (Some QueryError, st)
          else
            let alertResult =
                  filter (\<lambda>a. a_domain_id a = r_id domain \<and> a_type a = ''domain_downtime'')
                    (alerts st)
            in if length alertResult > 0 then
                 (let (results, att) =
                        sendDomainDowntimeAlert (env_tr env) domain domain
                          ''Domain appears to be down'' (attempts st)
                  in insert_notification env now (r_user_id domain) (r_id domain)
                       ''domain_downtime'' (st\<lparr>attempts := att\<rparr>))
               else (None, st))"

definition performUptimeMonitoring :: "env \<Rightarrow> timestamp \<Rightarrow> state \<Rightarrow> state" where
  "performUptimeMonitoring env now st =
     (if query_fails env load_active_domains
      then st\<lparr>console := console st @ [''Uptime monitoring error:'']\<rparr>
      else for_each_try (uptime_step env now)
             (\<lambda>r. ''Error checking uptime for domain '' @ r_domain_name r @ '':'') (active_rows st) st)"

section \<open>The alert-matching sweep\<close>

text \<open>
  The two queries of \<open>checkAndSendAlerts\<close>; \<open>CURRENT_DATE\<close> is the date of now in the
  time zone of the database session, and a NULL \<open>valid_until\<close> satisfies neither
  comparison.
\<close>

definition expiringDomains :: "state \<Rightarrow> timestamp \<Rightarrow> row list" where
  "expiringDomains st now =
     [with_alert a (domain_row d u).
        d \<leftarrow> domains st, u \<leftarrow> users st, a \<leftarrow> alerts st,
        d_user_id d = u_id u, d_id d = a_domain_id a,
        a_type a = ''domain_expiry'',
        d_expiry_date d \<le> local_date (db_time_zone st) now + 30,
        d_expiry_date d > local_date (db_time_zone st) now,
        d_status d = ''active'']"

definition in_window :: "date option \<Rightarrow> date \<Rightarrow> bool" where
  "in_window v current_date =
     (case v of None \<Rightarrow> False | Some d \<Rightarrow> d \<le> current_date + 30 \<and> d > current_date)"

definition expiringSSL :: "state \<Rightarrow> timestamp \<Rightarrow> row list" where
  "expiringSSL st now =
     [with_alert a (ssl_row d s u).
        d \<leftarrow> domains st, s \<leftarrow> ssl_certificates st, u \<leftarrow> users st, a \<leftarrow> alerts st,
        d_id d = s_domain_id s, d_user_id d = u_id u, d_id d = a_domain_id a,
        a_type a = ''ssl_expiry'',
        in_window (s_valid_until s) (local_date (db_time_zone st) now),
        d_status d = ''active'']"

text \<open>\<^verbatim>\<open>daysUntilExpiry <= record.days_before_expiry\<close>; false when the property is undefined.\<close>

definition within_threshold :: "int \<Rightarrow> int option \<Rightarrow> bool" where
  "within_threshold days threshold = (case threshold of None \<Rightarrow> False | Some n \<Rightarrow> days \<le> n)"

text \<open>
  \<^verbatim>\<open>SELECT id FROM notification_logs WHERE domain_id = $1 AND type = $2
  AND sent_at > CURRENT_TIMESTAMP - INTERVAL '24 hours'\<close>
\<close>

definition recentNotification :: "state \<Rightarrow> timestamp \<Rightarrow> nat \<Rightarrow> string \<Rightarrow> notification_log list" where
  "recentNotification st now domain_id ty =
     filter (\<lambda>n. n_domain_id n = domain_id \<and> n_type n = ty
                  \<and> n_sent_at n > now - 24 * 60 * 60 * 1000) (notification_logs st)"

definition alert_domain_step :: "env \<Rightarrow> timestamp \<Rightarrow> row \<Rightarrow> state \<Rightarrow> error option \<times> state" where
  "alert_domain_step env now record st =
     (let days = daysUntilExpiry (pg_date (process_tz env) (r_expiry_date record)) now
      in if within_threshold days (r_days_before_expiry record) then
           (if query_fails env (select_recent (r_id record)) then (Some QueryError, st)
            else if length (recentNotification st now (r_id record) ''domain_expiry'') = 0 then
              (let (results, att) =
                     sendDomainExpiryAlert (env_tr env) record record days (attempts st)
               in insert_notification env now (r_user_id record) (r_id record)
                    ''domain_expiry'' (st\<lparr>attempts := att\<rparr>))
            else (None, st))
         else (None, st))"

definition alert_ssl_step :: "env \<Rightarrow> timestamp \<Rightarrow> row \<Rightarrow> state \<Rightarrow> error option \<times> state" where
  "alert_ssl_step env now record st =
     (let days = daysUntilExpiry (new_Date (process_tz env) (r_valid_until record)) now
      in if within_threshold days (r_days_before_expiry record) then
           (if query_fails env (select_recent (r_id record)) then (Some QueryError, st)
            else if length (recentNotification st now (r_id record) ''ssl_expiry'') = 0 then
              (let (results, att) =
                     sendSSLExpiryAlert (env_tr env) record record (Num days) None (attempts st)
               in insert_notification env now (r_user_id record) (r_id record)
                    ''ssl_expiry'' (st\<lparr>attempts := att\<rparr>))
            else (None, st))
         else (None, st))"

text \<open>
  \<open>checkAndSendAlerts\<close>: one try block around both loops, none inside them; whatever is
  thrown ends the sweep at the catch, which logs it.
\<close>

definition checkAndSendAlerts :: "env \<Rightarrow> timestamp \<Rightarrow> state \<Rightarrow> state" where
  "checkAndSendAlerts env now st =
     (if query_fails env load_expiring_domains
      then st\<lparr>console := console st @ [''Alert checking error:'']\<rparr>
      else case for_each (alert_domain_step env now) (expiringDomains st now) st of
             (Some e, st1) \<Rightarrow> st1\<lparr>console := console st1 @ [''Alert checking error:'']\<rparr>
           | (None, st1) \<Rightarrow>
               if query_fails env load_expiring_ssl
               then st1\<lparr>console := console st1 @ [''Alert checking error:'']\<rparr>
               else case for_each (alert_ssl_step env now) (expiringSSL st1 now) st1 of
                      (Some e, st2) \<Rightarrow> st2\<lparr>console := console st2 @ [''Alert checking error:'']\<rparr>
                    | (None, st2) \<Rightarrow> st2)"


section \<open>Example data\<close>

text \<open>
  The data of the worked examples: 08:00 UTC on day 20000, an owner with an e-mail address
  and a phone number, a domain that expires on day 20010, a rule with the default channel
  flags (e-mail on, SMS off), and a host whose certificate ends at noon of day 20010. The
  database session is in UTC; so is the process, except in \<open>western_env\<close>, five hours
  west of it.
\<close>

definition example_now :: timestamp where
  "example_now = 1728028800000"

definition example_transport :: transport where
  "example_transport =
     \<lparr>smtp_configured = True, sendMail = (\<lambda>a. None), twilioClient = True,
      twilio_phone_number = True, messages_create = (\<lambda>a. None)\<rparr>"

definition smtp_down :: transport where
  "smtp_down = example_transport\<lparr>smtp_configured := False\<rparr>"

definition sms_down :: transport where
  "sms_down = example_transport\<lparr>messages_create := (\<lambda>a. Some ''provider unavailable'')\<rparr>"

definition example_certificate :: peer_certificate where
  "example_certificate =
     \<lparr>valid_from = Some 1719360000000, valid_to = Some 1728907200000,
      issuer_CN = Some ''Example CA'', issuer_O = None\<rparr>"

definition example_network :: network where
  "example_network =
     \<lparr>url_hostname = (\<lambda>s. Some (drop 8 s)),
      https_request = (\<lambda>h. https_response (Some example_certificate)),
      tls_connect = (\<lambda>h. tls_connected (Some example_certificate)),
      get_request = (\<lambda>p u. response 200)\<rparr>"

definition fallback_network :: network where
  "fallback_network = example_network\<lparr>https_request := (\<lambda>h. https_error ''EPROTO'')\<rparr>"

definition unreachable_network :: network where
  "unreachable_network =
     example_network\<lparr>https_request := (\<lambda>h. https_error ''ECONNREFUSED''),
                      tls_connect := (\<lambda>h. tls_error ''ECONNREFUSED'')\<rparr>"

definition example_env :: env where
  "example_env =
     \<lparr>env_tr = example_transport, env_net = example_network, process_tz = 0,
      query_fails = (\<lambda>q. False)\<rparr>"

definition western_env :: env where
  "western_env = example_env\<lparr>process_tz := - (5 * 60 * 60 * 1000)\<rparr>"

definition failing_env :: env where
  "failing_env = example_env\<lparr>query_fails := (\<lambda>q. q = select_recent 1 \<or> q = select_alerts 1)\<rparr>"

definition example_user :: user where
  "example_user = \<lparr>u_id = 1, u_email = ''owner@example.com'', u_phone = Some ''+15550100''\<rparr>"

definition example_domain :: domain where
  "example_domain =
     \<lparr>d_id = 1, d_user_id = 1, d_domain_name = ''example.com'', d_expiry_date = 20010,
      d_status = ''active''\<rparr>"

definition second_domain :: domain where
  "second_domain =
     \<lparr>d_id = 2, d_user_id = 1, d_domain_name = ''example.org'', d_expiry_date = 20020,
      d_status = ''active''\<rparr>"

definition expiry_rule :: "nat \<Rightarrow> string \<Rightarrow> int \<Rightarrow> alert" where
  "expiry_rule domain_id ty threshold =
     \<lparr>a_domain_id = domain_id, a_type = ty, a_email_enabled = True, a_sms_enabled = False,
      a_days_before_expiry = threshold\<rparr>"

definition example_state :: state where
  "example_state =
     \<lparr>domains = [example_domain], users = [example_user], ssl_certificates = [],
      alerts = [expiry_rule 1 ''domain_expiry'' 30],
      notification_logs = [], db_time_zone = 0, attempts = [], console = []\<rparr>"

definition two_domain_state :: state where
  "two_domain_state =
     example_state\<lparr>domains := [example_domain, second_domain],
                    alerts := [expiry_rule 1 ''domain_expiry'' 30, expiry_rule 2 ''domain_expiry'' 30]\<rparr>"

definition example_ssl_certificate :: ssl_certificate where
  "example_ssl_certificate =
     \<lparr>s_id = 1, s_domain_id = 1, s_issuer = None, s_valid_from = None,
      s_valid_until = Some 20010, s_status = ''valid''\<rparr>"

definition ssl_state :: state where
  "ssl_state =
     example_state\<lparr>ssl_certificates := [example_ssl_certificate],
                    alerts := [expiry_rule 1 ''domain_expiry'' 90, expiry_rule 1 ''ssl_expiry'' 90]\<rparr>"

definition orphan_state :: state where
  "orphan_state =
     example_state\<lparr>ssl_certificates := [example_ssl_certificate\<lparr>s_id := 7\<rparr>],
                    alerts := [expiry_rule 1 ''ssl_expiry'' 30]\<rparr>"

definition far_state :: state where
  "far_state =
     example_state\<lparr>domains := [example_domain\<lparr>d_expiry_date := 20030\<rparr>],
                    alerts := [expiry_rule 1 ''domain_expiry'' 90]\<rparr>"

definition sent_entry :: "nat \<Rightarrow> string \<Rightarrow> timestamp \<Rightarrow> notification_log" where
  "sent_entry domain_id ty t =
     \<lparr>n_user_id = 1, n_domain_id = domain_id, n_type = ty, n_method = ''automated'',
      n_status = ''sent'', n_sent_at = t\<rparr>"

definition example_row :: row where
  "example_row = domain_row example_domain example_user"

definition example_ssl_row :: row where
  "example_ssl_row = ssl_row example_domain example_ssl_certificate example_user"

section \<open>The expiry evaluator\<close>

lemma ms_per_day_pos: "0 < ms_per_day"
  by (simp add: ms_per_day_def)

lemma daysUntilExpiry_div: "daysUntilExpiry target now = - ((now - target) div ms_per_day)"
proof -
  have flip: "real_of_int (target - now) / real_of_int ms_per_day
              = - (real_of_int (now - target) / real_of_int ms_per_day)"
    by (simp add: diff_divide_distrib)
  have "daysUntilExpiry target now
        = \<lceil>- (real_of_int (now - target) / real_of_int ms_per_day)\<rceil>"
    unfolding daysUntilExpiry_def by (rule arg_cong [where f = ceiling, OF flip])
  also have "\<dots> = - \<lfloor>real_of_int (now - target) / real_of_int ms_per_day\<rfloor>"
    by (rule ceiling_minus)
  also have "\<dots> = - ((now - target) div ms_per_day)"
    by (simp only: floor_divide_of_int_eq)
  finally show ?thesis .
qed



text \<open>
  On raw timestamps the result is negative exactly when the target lies a full day or more
  in the past.
\<close>

lemma daysUntilExpiry_negative:
  "daysUntilExpiry target now < 0 \<longleftrightarrow> target + ms_per_day \<le> now"
proof -
  have "0 < (now - target) div ms_per_day \<longleftrightarrow> ms_per_day \<le> now - target"
    using ms_per_day_pos by (rule pos_imp_zdiv_pos_iff)
  then show ?thesis
    by (simp add: daysUntilExpiry_div) linarith
qed





section \<open>Unfolding the model on concrete data\<close>

lemmas example_defs =
  example_now_def example_transport_def smtp_down_def sms_down_def example_certificate_def
  example_network_def fallback_network_def unreachable_network_def example_env_def
  western_env_def failing_env_def example_user_def
  example_domain_def second_domain_def expiry_rule_def example_state_def two_domain_state_def
  example_ssl_certificate_def ssl_state_def orphan_state_def far_state_def sent_entry_def
  example_row_def example_ssl_row_def

lemmas sweep_defs =
  checkAndSendAlerts_def performDailyMonitoring_def performSSLMonitoring_def
  expiringDomains_def expiringSSL_def active_rows_def ssl_rows_def
  alert_domain_step_def alert_ssl_step_def daily_step_def ssl_step_def
  daysUntilExpiry_div date_to_ms_def utc_date_def pg_date_def local_date_def ms_per_day_def
  within_threshold_def recentNotification_def in_window_def new_Date_def
  sendDomainExpiryAlert_def sendSSLExpiryAlert_def insert_notification_def
  domain_row_def ssl_row_def with_alert_def
  truthy_def str_def outcome_def sendEmailAlert_def sendSMSAlert_def email_of_def phone_of_def

lemmas prober_defs =
  checkSSLCertificate_def checkWithTLS_def certificate_result_def new_URL_def has_scheme_def
  url_input_def startsWith_def ascii_alpha_def ascii_digit_def scheme_char_def issuer_of_def
  https_status_def tls_status_def status_name_def

section \<open>The certificate status classification\<close>

lemma https_status_cases:
  "(https_status until now = expired \<longleftrightarrow> until < now)
   \<and> (https_status until now = expiring_soon
        \<longleftrightarrow> now \<le> until \<and> until < now + 30 * ms_per_day)
   \<and> (https_status until now = valid \<longleftrightarrow> now + 30 * ms_per_day \<le> until)"
  by (simp add: https_status_def ms_per_day_def)

lemma tls_status_cases:
  "(tls_status until now = expired \<longleftrightarrow> until < now)
   \<and> (tls_status until now = expiring_soon
        \<longleftrightarrow> now \<le> until \<and> until < now + 30 * ms_per_day)
   \<and> (tls_status until now = valid \<longleftrightarrow> now + 30 * ms_per_day \<le> until)"
  by (simp add: tls_status_def ms_per_day_def)

text \<open>
  C5. Whenever a probe path obtains a certificate with its two dates, the prober resolves
  with a status that is a function of the certificate's end and now: expired exactly when
  the end is before now, expiring soon exactly when it lies in the 30 days from now,
  valid exactly otherwise. This holds for the HTTPS path of \<open>checkSSLCertificate\<close>, for
  \<open>checkWithTLS\<close>, and for \<open>checkSSLCertificate\<close> when it falls back to the TLS path.
\<close>

theorem probe_status_classification:
  "(new_URL net (if startsWith domain ''http'' then domain else ''https://'' @ domain)
      = Some hostname
    \<and> https_request net hostname = https_response (Some cert)
    \<and> valid_from cert = Some since \<and> valid_to cert = Some until
    \<longrightarrow> (\<exists>info. checkSSLCertificate net now domain = Resolved (Some info)
          \<and> (status info = expired \<longleftrightarrow> until < now)
          \<and> (status info = expiring_soon \<longleftrightarrow> now \<le> until \<and> until < now + 30 * ms_per_day)
          \<and> (status info = valid \<longleftrightarrow> now + 30 * ms_per_day \<le> until)))
   \<and> (tls_connect net hostname = tls_connected (Some cert)
    \<and> valid_from cert = Some since \<and> valid_to cert = Some until
    \<longrightarrow> (\<exists>info. checkWithTLS net now hostname = Resolved info
          \<and> (status info = expired \<longleftrightarrow> until < now)
          \<and> (status info = expiring_soon \<longleftrightarrow> now \<le> until \<and> until < now + 30 * ms_per_day)
          \<and> (status info = valid \<longleftrightarrow> now + 30 * ms_per_day \<le> until)))
   \<and> (new_URL net (if startsWith domain ''http'' then domain else ''https://'' @ domain)
      = Some hostname
    \<and> https_request net hostname = https_error e
    \<and> tls_connect net hostname = tls_connected (Some cert)
    \<and> valid_from cert = Some since \<and> valid_to cert = Some until
    \<longrightarrow> (\<exists>info. checkSSLCertificate net now domain = Resolved (Some info)
          \<and> (status info = expired \<longleftrightarrow> until < now)
          \<and> (status info = expiring_soon \<longleftrightarrow> now \<le> until \<and> until < now + 30 * ms_per_day)
          \<and> (status info = valid \<longleftrightarrow> now + 30 * ms_per_day \<le> until)))"
  using https_status_cases [of until now] tls_status_cases [of until now]
  by (simp add: checkSSLCertificate_def checkWithTLS_def certificate_result_def)

text \<open>
  The certificate of the example ends at noon of day 20010. At 08:00 of day 20000 both
  paths report it as expiring soon; forty days earlier both report it as valid, and a day
  after its end both report it as expired.
\<close>

theorem probe_status_classification_witness:
  "new_URL example_network ''https://example.com'' = Some ''example.com''
   \<and> https_request example_network ''example.com'' = https_response (Some example_certificate)
   \<and> tls_connect fallback_network ''example.com'' = tls_connected (Some example_certificate)
   \<and> https_request fallback_network ''example.com'' = https_error ''EPROTO''
   \<and> valid_from example_certificate = Some 1719360000000
   \<and> valid_to example_certificate = Some 1728907200000
   \<and> checkSSLCertificate example_network example_now ''example.com''
       = Resolved (Some \<lparr>issuer = ''Example CA'', validFrom = 19900, validUntil = 20010,
                          status = expiring_soon\<rparr>)
   \<and> checkWithTLS fallback_network example_now ''example.com''
       = Resolved \<lparr>issuer = ''Example CA'', validFrom = 19900, validUntil = 20010,
                    status = expiring_soon\<rparr>
   \<and> checkSSLCertificate fallback_network example_now ''example.com''
       = Resolved (Some \<lparr>issuer = ''Example CA'', validFrom = 19900, validUntil = 20010,
                          status = expiring_soon\<rparr>)
   \<and> checkSSLCertificate example_network 1725350400000 ''example.com''
       = Resolved (Some \<lparr>issuer = ''Example CA'', validFrom = 19900, validUntil = 20010,
                          status = valid\<rparr>)
   \<and> checkSSLCertificate fallback_network 1725350400000 ''example.com''
       = Resolved (Some \<lparr>issuer = ''Example CA'', validFrom = 19900, validUntil = 20010,
                          status = valid\<rparr>)
   \<and> checkSSLCertificate example_network 1728993600000 ''example.com''
       = Resolved (Some \<lparr>issuer = ''Example CA'', validFrom = 19900, validUntil = 20010,
                          status = expired\<rparr>)
   \<and> checkSSLCertificate fallback_network 1728993600000 ''example.com''
       = Resolved (Some \<lparr>issuer = ''Example CA'', validFrom = 19900, validUntil = 20010,
                          status = expired\<rparr>)"
  using probe_status_classification [of example_network "''example.com''" "''example.com''"
      example_certificate 1719360000000 1728907200000 example_now]
    probe_status_classification [of fallback_network "''example.com''" "''example.com''"
      example_certificate 1719360000000 1728907200000 example_now "''EPROTO''"]
  by (simp add: example_defs prober_defs truthy_def utc_date_def ms_per_day_def)

section \<open>The dispatchers: channel isolation\<close>

text \<open>
  C2. When the recipient has an e-mail address and a phone number, both sends are
  attempted whatever the other does: if the e-mail send throws and the SMS send succeeds
  the dispatcher returns the failure of the one and the success of the other, and the
  other way round; the three dispatchers behave alike.
\<close>

theorem channel_isolation:
  assumes "truthy (r_email user)" and "truthy (r_phone user)"
  shows "(sendEmailAlert tr (str (r_email user)) = Inl m
          \<and> sendSMSAlert tr (str (r_phone user)) = Inr ()
          \<longrightarrow> sendDomainExpiryAlert tr domain user days att
              = ([(email, failed m), (sms, success)],
                 att @ [(email, str (r_email user)), (sms, str (r_phone user))]))
       \<and> (sendEmailAlert tr (str (r_email user)) = Inr ()
          \<and> sendSMSAlert tr (str (r_phone user)) = Inl m
          \<longrightarrow> sendDomainExpiryAlert tr domain user days att
              = ([(email, success), (sms, failed m)],
                 att @ [(email, str (r_email user)), (sms, str (r_phone user))]))
       \<and> sendDomainDowntimeAlert tr domain user err att
           = sendDomainExpiryAlert tr domain user days att
       \<and> sendSSLExpiryAlert tr domain cert (Obj user) d att
           = sendDomainExpiryAlert tr domain user days att"
  using assms
  by (simp add: sendDomainExpiryAlert_def sendDomainDowntimeAlert_def sendSSLExpiryAlert_def
      outcome_def email_of_def phone_of_def)

text \<open>
  The owner of the example has both contacts. With SMTP not configured the e-mail send
  throws and the SMS is delivered; with the SMS provider failing it is the other way round.
\<close>

theorem channel_isolation_witness:
  "truthy (r_email example_row) \<and> truthy (r_phone example_row)
   \<and> sendEmailAlert smtp_down ''owner@example.com'' = Inl ''SMTP configuration not set''
   \<and> sendSMSAlert smtp_down ''+15550100'' = Inr ()
   \<and> sendDomainExpiryAlert smtp_down example_row example_row 10 []
       = ([(email, failed ''SMTP configuration not set''), (sms, success)],
          [(email, ''owner@example.com''), (sms, ''+15550100'')])
   \<and> sendEmailAlert sms_down ''owner@example.com'' = Inr ()
   \<and> sendSMSAlert sms_down ''+15550100'' = Inl ''provider unavailable''
   \<and> sendDomainExpiryAlert sms_down example_row example_row 10 []
       = ([(email, success), (sms, failed ''provider unavailable'')],
          [(email, ''owner@example.com''), (sms, ''+15550100'')])"
  using channel_isolation [of example_row smtp_down "''SMTP configuration not set''"
      example_row 10 "[]"]
    channel_isolation [of example_row sms_down "''provider unavailable''" example_row 10 "[]"]
  by (simp add: example_defs domain_row_def truthy_def str_def sendEmailAlert_def
      sendSMSAlert_def)

section \<open>The dispatchers: channels that are skipped\<close>

text \<open>A recipient without a phone number gets no SMS attempt and no SMS result.\<close>

lemma dispatch_no_phone:
  assumes "\<not> truthy (r_phone user)"
  shows "sms \<notin> fst ` set (fst (sendDomainExpiryAlert tr domain user days att))"
    and "snd (sendDomainExpiryAlert tr domain user days att)
         = att @ (if truthy (r_email user) then [(email, str (r_email user))] else [])"
  using assms by (auto simp: sendDomainExpiryAlert_def split: if_splits)

text \<open>
  C8. The alert-matching sweep selects the channel flags of the rule with each row, and
  no dispatcher reads them. In the example the rule has SMS disabled and the owner has a
  phone number: the sweep attempts the SMS all the same.
\<close>

theorem disabled_sms_still_sent:
  "map r_sms_enabled (expiringDomains example_state example_now) = [Some False]
   \<and> attempts (checkAndSendAlerts example_env example_now example_state)
     = [(email, ''owner@example.com''), (sms, ''+15550100'')]"
  by (simp add: example_defs sweep_defs)

section \<open>The reachability prober\<close>

text \<open>Whatever event the request ends in decides the result.\<close>

lemma checkDomainUptime_event:
  assumes "protocol_get net
             (if startsWith (if startsWith domainName ''http'' then domainName
                             else ''https://'' @ domainName) ''https'' then https else http)
             (if startsWith domainName ''http'' then domainName else ''https://'' @ domainName)
           = ev"
  shows "checkDomainUptime net domainName =
           (case ev of invalid_url \<Rightarrow> Rejected (TypeError ''Invalid URL'')
            | response c \<Rightarrow> Resolved (200 \<le> c \<and> c < 400)
            | error_event e \<Rightarrow> Resolved False
            | timeout_event \<Rightarrow> Resolved False)"
  using assms by (simp add: checkDomainUptime_def Let_def)

text \<open>
  C6. A host name that begins with \<open>http\<close> is taken to carry its scheme already and is
  passed to \<open>http.get\<close> as it is; the call throws on the string without a scheme, inside
  the executor of the promise, and the promise is rejected: for such a name the check
  yields neither up nor down, whatever the network does.
\<close>

theorem uptime_rejects_httpbin:
  "checkDomainUptime net ''httpbin.org'' = Rejected (TypeError ''Invalid URL'')"
  by (simp add: checkDomainUptime_def protocol_get_def has_scheme_def url_input_def
      startsWith_def ascii_alpha_def scheme_char_def ascii_digit_def)

section \<open>The certificate prober\<close>

text \<open>
  C7, as the code has it. When the HTTPS request ends in an error and the TLS connection
  that is tried next ends in an error too, the promise of the prober is rejected with the
  error object of the socket, unchanged.
\<close>

theorem handshake_failure_propagates:
  assumes "new_URL net (if startsWith domain ''http'' then domain else ''https://'' @ domain)
           = Some hostname"
      and "https_request net hostname = https_error e1"
      and "tls_connect net hostname = tls_error e2"
  shows "checkSSLCertificate net now domain = Rejected (TransportError e2)"
  using assms by (simp add: checkSSLCertificate_def checkWithTLS_def)

theorem handshake_failure_propagates_witness:
  "new_URL unreachable_network ''https://example.com'' = Some ''example.com''
   \<and> https_request unreachable_network ''example.com'' = https_error ''ECONNREFUSED''
   \<and> tls_connect unreachable_network ''example.com'' = tls_error ''ECONNREFUSED''
   \<and> checkSSLCertificate unreachable_network example_now ''example.com''
     = Rejected (TransportError ''ECONNREFUSED'')"
  using handshake_failure_propagates [of unreachable_network "''example.com''" "''example.com''"
      "''ECONNREFUSED''" "''ECONNREFUSED''" example_now]
  by (simp add: example_defs prober_defs)

text \<open>
  On a host that refuses both connections the caller receives the raw ECONNREFUSED of the
  socket, not a failure of a type of the prober's own.
\<close>

theorem handshake_failure_raw_error:
  "https_request unreachable_network ''example.com'' = https_error ''ECONNREFUSED''
   \<and> tls_connect unreachable_network ''example.com'' = tls_error ''ECONNREFUSED''
   \<and> checkSSLCertificate unreachable_network example_now ''example.com''
     = Rejected (TransportError ''ECONNREFUSED'')"
  by (simp add: example_defs prober_defs)

section \<open>Deduplication\<close>

text \<open>
  In the alert-matching sweep a notification of the last 24 hours for the same id and type
  suppresses the row: nothing is sent and nothing is logged.
\<close>

lemma alert_domain_step_suppressed:
  assumes "recentNotification st now (r_id r) ''domain_expiry'' \<noteq> []"
      and "\<not> query_fails env (select_recent (r_id r))"
  shows "alert_domain_step env now r st = (None, st)"
  using assms by (simp add: alert_domain_step_def Let_def)

lemma alert_ssl_step_suppressed:
  assumes "recentNotification st now (r_id r) ''ssl_expiry'' \<noteq> []"
      and "\<not> query_fails env (select_recent (r_id r))"
  shows "alert_ssl_step env now r st = (None, st)"
  using assms by (simp add: alert_ssl_step_def Let_def)

lemma hourly_twice_logs_once:
  "notification_logs
     (checkAndSendAlerts example_env (example_now + 60 * 60 * 1000)
        (checkAndSendAlerts example_env example_now example_state))
   = [sent_entry 1 ''domain_expiry'' example_now]"
  by (simp add: example_defs sweep_defs)

text \<open>
  C1. The daily sweep does not consult the log. The alert-matching sweep of 08:00 sends
  the expiry alert of the example domain and logs it; the daily sweep one hour later
  sends it again and logs a second entry for the same domain and type.
\<close>

theorem hourly_then_daily_logs_twice:
  "notification_logs
     (performDailyMonitoring example_env (example_now + 60 * 60 * 1000)
        (checkAndSendAlerts example_env example_now example_state))
   = [sent_entry 1 ''domain_expiry'' example_now,
      sent_entry 1 ''domain_expiry'' (example_now + 60 * 60 * 1000)]
   \<and> attempts
     (performDailyMonitoring example_env (example_now + 60 * 60 * 1000)
        (checkAndSendAlerts example_env example_now example_state))
   = [(email, ''owner@example.com''), (sms, ''+15550100''),
      (email, ''owner@example.com''), (sms, ''+15550100'')]"
  by (simp add: example_defs sweep_defs)

section \<open>Sweep isolation\<close>

text \<open>A loop with a try block in its body visits every row, whatever the rows before threw.\<close>

lemma for_each_try_append:
  "for_each_try step label (rs @ rs') st
   = for_each_try step label rs' (for_each_try step label rs st)"
  by (induction rs arbitrary: st) (auto split: prod.splits option.splits)

text \<open>A loop without one ends at the first row that throws.\<close>

lemma for_each_stops:
  "for_each step rs st = (Some e, st') \<Longrightarrow> for_each step (rs @ rs') st = (Some e, st')"
  by (induction rs arbitrary: st) (auto split: prod.splits option.splits)

text \<open>
  With the statements for domain 1 failing, the daily sweep logs the error of domain 1 and
  goes on to alert for domain 2.
\<close>

lemma daily_sweep_isolates:
  "notification_logs (performDailyMonitoring failing_env example_now two_domain_state)
     = [sent_entry 2 ''domain_expiry'' example_now]
   \<and> console (performDailyMonitoring failing_env example_now two_domain_state)
     = [''Error monitoring domain example.com:'']"
  by (simp add: example_defs sweep_defs)

lemma hourly_sweep_without_error:
  "notification_logs (checkAndSendAlerts example_env example_now two_domain_state)
     = [sent_entry 1 ''domain_expiry'' example_now, sent_entry 2 ''domain_expiry'' example_now]"
  by (simp add: example_defs sweep_defs)

text \<open>
  C3. The alert-matching sweep has no try block inside its loops. With the same failure
  for domain 1, the sweep ends at its outer catch: domain 2, which is due for an alert,
  is not processed; nothing is sent and nothing is logged for it.
\<close>

theorem hourly_sweep_aborts:
  "checkAndSendAlerts failing_env example_now two_domain_state
     = two_domain_state\<lparr>console := [''Alert checking error:'']\<rparr>"
  by (simp add: example_defs sweep_defs)

section \<open>Certificate expiry alerts\<close>

text \<open>
  Both sweeps call \<open>sendSSLExpiryAlert\<close> with three arguments, so the number of days is
  bound to the parameter \<open>user\<close>: its \<open>email\<close> and \<open>phone\<close> are undefined, and the
  dispatcher attempts nothing and returns no result.
\<close>

lemma ssl_dispatch_number:
  "sendSSLExpiryAlert tr domain cert (Num n) days att = ([], att)"
  by (simp add: sendSSLExpiryAlert_def email_of_def phone_of_def truthy_def)

text \<open>
  The certificate sweep logs under \<open>record.domain_id\<close>, the id of the domain: when it
  triggers an alert (and no statement fails), it attempts no send and appends an entry
  with status \<open>sent\<close>.
\<close>

lemma ssl_step_logs_sent:
  assumes "checkSSLCertificate (env_net env) now (r_domain_name r) = Resolved (Some info)"
      and "r_domain_id r = Some did"
      and "0 < daysUntilExpiry (date_to_ms (validUntil info)) now"
      and "daysUntilExpiry (date_to_ms (validUntil info)) now \<le> 30"
      and "filter (\<lambda>a. a_domain_id a = did \<and> a_type a = ''ssl_expiry''
                    \<and> a_days_before_expiry a \<ge> daysUntilExpiry (date_to_ms (validUntil info)) now)
             (alerts st) \<noteq> []"
      and "\<not> query_fails env (update_certificate did)"
      and "\<not> query_fails env (select_alerts did)"
      and "\<not> query_fails env (insert_log did)"
      and "r_user_id r \<in> set (map u_id (users st))"
      and "did \<in> set (map d_id (domains st))"
  shows "fst (ssl_step env now r st) = None"
    and "attempts (snd (ssl_step env now r st)) = attempts st"
    and "notification_logs (snd (ssl_step env now r st))
          = notification_logs st @
              [\<lparr>n_user_id = r_user_id r, n_domain_id = did, n_type = ''ssl_expiry'',
                n_method = ''automated'', n_status = ''sent'', n_sent_at = now\<rparr>]"
  using assms
  by (simp_all add: ssl_step_def Let_def ssl_dispatch_number insert_notification_def)

text \<open>
  The alert-matching sweep logs under \<open>record.id\<close>: when it triggers a certificate alert
  it attempts no send; the entry is appended if that id is the id of a domain.
\<close>

lemma alert_ssl_step_logs_sent:
  assumes "within_threshold (daysUntilExpiry (new_Date (process_tz env) (r_valid_until r)) now)
             (r_days_before_expiry r)"
      and "recentNotification st now (r_id r) ''ssl_expiry'' = []"
      and "\<not> query_fails env (select_recent (r_id r))"
      and "\<not> query_fails env (insert_log (r_id r))"
      and "r_user_id r \<in> set (map u_id (users st))"
  shows "attempts (snd (alert_ssl_step env now r st)) = attempts st"
    and "r_id r \<in> set (map d_id (domains st)) \<Longrightarrow>
         alert_ssl_step env now r st
           = (None, st\<lparr>notification_logs := notification_logs st @
                [\<lparr>n_user_id = r_user_id r, n_domain_id = r_id r, n_type = ''ssl_expiry'',
                  n_method = ''automated'', n_status = ''sent'', n_sent_at = now\<rparr>]\<rparr>)"
    and "r_id r \<notin> set (map d_id (domains st)) \<Longrightarrow>
         alert_ssl_step env now r st = (Some QueryError, st)"
  using assms
  by (simp_all add: alert_ssl_step_def Let_def ssl_dispatch_number insert_notification_def)

text \<open>
  In the example with the certificate's id 7 the certificate sweep logs the alert for
  domain 1 and contacts nobody.
\<close>

lemma ssl_sweep_logs_for_domain:
  "notification_logs (performSSLMonitoring example_env example_now orphan_state)
     = [sent_entry 1 ''ssl_expiry'' example_now]
   \<and> attempts (performSSLMonitoring example_env example_now orphan_state) = []"
  by (simp add: example_defs sweep_defs prober_defs)

text \<open>
  C9. The rows of the second query of the alert-matching sweep come from
  \<open>SELECT d.*, s.*\<close>, so \<open>record.id\<close> is the id of the certificate, and the sweep inserts
  it as the \<open>domain_id\<close> of the log entry. In the example the certificate of domain 1 has
  id 7 and no domain has id 7: the alert is triggered, no send is attempted, the INSERT
  violates the foreign key, and the sweep ends at its catch with no entry appended.
\<close>

theorem alert_matching_ssl_entry_not_appended:
  "map r_id (expiringSSL orphan_state example_now) = [7]
   \<and> map r_domain_id (expiringSSL orphan_state example_now) = [Some 1]
   \<and> within_threshold
         (daysUntilExpiry (new_Date (process_tz example_env) (Some 20010)) example_now) (Some 30)
   \<and> recentNotification orphan_state example_now 7 ''ssl_expiry'' = []
   \<and> checkAndSendAlerts example_env example_now orphan_state
     = orphan_state\<lparr>console := [''Alert checking error:'']\<rparr>"
  by (simp add: example_defs sweep_defs)

section \<open>The 30-day window\<close>








subsection \<open>What a loop of the alert-matching sweep appends\<close>














end
